theory Spec2Isabelle
  imports Main
begin

section \<open>Student attendance system: the request handlers of backend/server.py\<close>

text \<open>
  The handlers of \<^verbatim>\<open>backend/server.py\<close> are embedded as functions over an explicit
  store. A handler takes the request environment, the store, its arguments and the
  authenticated user (the value of \<^verbatim>\<open>Depends(get_current_user)\<close>), and returns its
  outcome together with the store it leaves behind. A raised exception is the \<open>Inl\<close>
  branch of the outcome; the store is returned in both branches, because a handler may
  have written before it raises.
\<close>

subsection \<open>Values of the Python library\<close>

text \<open>
  A \<^verbatim>\<open>datetime\<close> is a number of clock ticks. A \<^verbatim>\<open>date\<close> is its proleptic Gregorian
  ordinal (\<^verbatim>\<open>date.toordinal()\<close>): \<^verbatim>\<open>date.min\<close> is day 1 and \<^verbatim>\<open>date.max\<close>
  (9999-12-31) is day 3652059. Adding a \<^verbatim>\<open>timedelta\<close> that leaves this range raises
  \<^verbatim>\<open>OverflowError\<close>.
\<close>

type_synonym datetime = nat
type_synonym date = int

definition date_min :: date where
  "date_min = 1"

definition date_max :: date where
  "date_max = 3652059"

datatype error =
    HTTPException nat string
  | TypeError
  | KeyError string
  | OverflowError
  | InvalidDocument

definition status_code :: "error + 'a \<Rightarrow> nat option" where
  "status_code r = (case r of Inl (HTTPException c d) \<Rightarrow> Some c | _ \<Rightarrow> None)"

definition is_Forbidden :: "error + 'a \<Rightarrow> bool" where
  "is_Forbidden r = (status_code r = Some 403)"

definition is_NotFound :: "error + 'a \<Rightarrow> bool" where
  "is_NotFound r = (status_code r = Some 404)"

definition add_one_day :: "date \<Rightarrow> error + date" where
  "add_one_day d = (if d + 1 > date_max then Inl OverflowError else Inr (d + 1))"

text \<open>
  What a request draws from outside the program: the clock (read once per request in this
  model), the identifiers \<^verbatim>\<open>uuid.uuid4()\<close> returns (the \<open>k\<close>-th one drawn while the
  request is served), and the library functions the handlers call without defining them:
  the password hash, the token encoder and the two renderings of a date
  (\<^verbatim>\<open>strftime("%Y-%m-%d")\<close> and \<^verbatim>\<open>str\<close>).
\<close>

record env =
  utcnow :: datetime
  uuid4 :: "nat \<Rightarrow> string"
  pwd_context_hash :: "string \<Rightarrow> string"
  jwt_encode :: "string \<Rightarrow> string"
  strftime_Ymd :: "date \<Rightarrow> string"
  date_str :: "date \<Rightarrow> string"

subsection \<open>Models\<close>

record User =
  user_id :: string
  username :: string
  email :: string
  password_hash :: string
  role :: string
  user_created_at :: datetime

record UserCreate =
  uc_username :: string
  uc_email :: string
  uc_password :: string
  uc_role :: string

record UserResponse =
  ur_id :: string
  ur_username :: string
  ur_email :: string
  ur_role :: string
  ur_created_at :: datetime

record Class =
  cls_id :: string
  cls_name :: string
  subject :: string
  teacher_id :: string
  cls_created_at :: datetime

record ClassCreate =
  cc_name :: string
  cc_subject :: string
  cc_teacher_id :: string

record Student =
  stu_id :: string
  stu_name :: string
  stu_email :: string
  class_id :: string
  roll_number :: string
  stu_created_at :: datetime

record StudentCreate =
  sc_name :: string
  sc_email :: string
  sc_class_id :: string
  sc_roll_number :: string

record Attendance =
  att_id :: string
  att_class_id :: string
  student_id :: string
  att_date :: date
  status :: string
  att_created_at :: datetime

type_synonym dict = "string \<rightharpoonup> string"

record AttendanceBulkCreate =
  ab_class_id :: string
  ab_date :: date
  attendance_records :: "dict list"

subsection \<open>The document store\<close>

text \<open>
  The store is the database handle \<^verbatim>\<open>db\<close> with its four collections. A collection is
  the list of its documents in insertion order. The operations are the ones the handlers
  call on a collection: \<^verbatim>\<open>find_one\<close> returns the first match, \<^verbatim>\<open>find(...).to_list(n)\<close>
  the first \<open>n\<close> matches, \<^verbatim>\<open>update_one\<close> and \<^verbatim>\<open>delete_one\<close> act on the first match,
  \<^verbatim>\<open>delete_many\<close> on every match.
\<close>

record db =
  db_users :: "User list"
  db_classes :: "Class list"
  db_students :: "Student list"
  db_attendance :: "Attendance list"

definition find_one :: "('a \<Rightarrow> bool) \<Rightarrow> 'a list \<Rightarrow> 'a option" where
  "find_one q xs = List.find q xs"

definition to_list :: "nat \<Rightarrow> 'a list \<Rightarrow> 'a list" where
  "to_list n xs = take n xs"

definition insert_one :: "'a \<Rightarrow> 'a list \<Rightarrow> 'a list" where
  "insert_one x xs = xs @ [x]"

definition insert_many :: "'a list \<Rightarrow> 'a list \<Rightarrow> 'a list" where
  "insert_many ys xs = xs @ ys"

fun update_one :: "('a \<Rightarrow> bool) \<Rightarrow> ('a \<Rightarrow> 'a) \<Rightarrow> 'a list \<Rightarrow> 'a list" where
  "update_one q f [] = []"
| "update_one q f (x # xs) = (if q x then f x # xs else x # update_one q f xs)"

fun delete_one :: "('a \<Rightarrow> bool) \<Rightarrow> 'a list \<Rightarrow> 'a list" where
  "delete_one q [] = []"
| "delete_one q (x # xs) = (if q x then xs else x # delete_one q xs)"

definition delete_many :: "('a \<Rightarrow> bool) \<Rightarrow> 'a list \<Rightarrow> 'a list" where
  "delete_many q xs = filter (\<lambda>x. \<not> q x) xs"

text \<open>
  The driver encodes every filter and every document to BSON before it reaches the
  database. BSON has strings and datetimes and no type for a calendar date: the default
  codec raises \<^verbatim>\<open>InvalidDocument\<close> on a \<^verbatim>\<open>datetime.date\<close>, and \<^verbatim>\<open>server.py\<close> creates
  its client with the default codec. The filters and documents of users, classes and
  students hold strings and datetimes only and always encode. Those of the attendance
  collection carry a date of the request, and the three handlers that build them are
  written with the encoding step, which raises before the database is reached.
\<close>

datatype py_value = PyStr string | PyDatetime datetime | PyDate date

datatype bson = BsonString string | BsonDatetime datetime

fun bson_encode :: "py_value \<Rightarrow> error + bson" where
  "bson_encode (PyStr s) = Inr (BsonString s)"
| "bson_encode (PyDatetime t) = Inr (BsonDatetime t)"
| "bson_encode (PyDate dt) = Inl InvalidDocument"

fun bson_encode_all :: "py_value list \<Rightarrow> error + bson list" where
  "bson_encode_all [] = Inr []"
| "bson_encode_all (v # vs) =
     (case bson_encode v of
        Inl err \<Rightarrow> Inl err
      | Inr b \<Rightarrow>
          (case bson_encode_all vs of
             Inl err \<Rightarrow> Inl err
           | Inr bs \<Rightarrow> Inr (b # bs)))"

text \<open>The values of an attendance document, \<^verbatim>\<open>attendance.dict()\<close>.\<close>

definition Attendance_dict :: "Attendance \<Rightarrow> py_value list" where
  "Attendance_dict a =
     [PyStr (att_id a), PyStr (att_class_id a), PyStr (student_id a), PyDate (att_date a),
      PyStr (status a), PyDatetime (att_created_at a)]"

text \<open>The update document \<^verbatim>\<open>{"$set": model.dict()}\<close>: every field of the model is written.\<close>

definition set_Class :: "Class \<Rightarrow> Class \<Rightarrow> Class" where
  "set_Class new doc =
     doc\<lparr>cls_id := cls_id new, cls_name := cls_name new, subject := subject new,
         teacher_id := teacher_id new, cls_created_at := cls_created_at new\<rparr>"

definition set_Student :: "Student \<Rightarrow> Student \<Rightarrow> Student" where
  "set_Student new doc =
     doc\<lparr>stu_id := stu_id new, stu_name := stu_name new, stu_email := stu_email new,
         class_id := class_id new, roll_number := roll_number new,
         stu_created_at := stu_created_at new\<rparr>"

subsection \<open>Helper functions and model constructors\<close>

definition hash_password :: "env \<Rightarrow> string \<Rightarrow> string" where
  "hash_password e password = pwd_context_hash e password"

definition create_jwt_token :: "env \<Rightarrow> string \<Rightarrow> string" where
  "create_jwt_token e uid = jwt_encode e uid"

text \<open>
  The pydantic constructors: \<^verbatim>\<open>id\<close> and \<^verbatim>\<open>created_at\<close> come from the default
  factories, the other fields from the payload.
\<close>

definition UserResponse_of :: "User \<Rightarrow> UserResponse" where
  "UserResponse_of u =
     \<lparr>ur_id = user_id u, ur_username = username u, ur_email = email u,
      ur_role = role u, ur_created_at = user_created_at u\<rparr>"

definition Class_of :: "env \<Rightarrow> nat \<Rightarrow> ClassCreate \<Rightarrow> Class" where
  "Class_of e k class_data =
     \<lparr>cls_id = uuid4 e k, cls_name = cc_name class_data, subject = cc_subject class_data,
      teacher_id = cc_teacher_id class_data, cls_created_at = utcnow e\<rparr>"

definition Student_of :: "env \<Rightarrow> nat \<Rightarrow> StudentCreate \<Rightarrow> Student" where
  "Student_of e k student_data =
     \<lparr>stu_id = uuid4 e k, stu_name = sc_name student_data, stu_email = sc_email student_data,
      class_id = sc_class_id student_data, roll_number = sc_roll_number student_data,
      stu_created_at = utcnow e\<rparr>"

subsection \<open>Authentication routes\<close>

record RegisterResponse =
  rr_message :: string
  rr_token :: string
  rr_user :: UserResponse

definition register_user :: "env \<Rightarrow> db \<Rightarrow> UserCreate \<Rightarrow> (error + RegisterResponse) \<times> db" where
  "register_user e d user_data =
     (case find_one (\<lambda>u. email u = uc_email user_data) (db_users d) of
        Some existing_user \<Rightarrow> (Inl (HTTPException 400 ''Email already registered''), d)
      | None \<Rightarrow>
          let hashed_password = hash_password e (uc_password user_data);
              user = \<lparr>user_id = uuid4 e 0, username = uc_username user_data,
                      email = uc_email user_data, password_hash = hashed_password,
                      role = uc_role user_data, user_created_at = utcnow e\<rparr>;
              d' = d\<lparr>db_users := insert_one user (db_users d)\<rparr>;
              token = create_jwt_token e (user_id user)
          in (Inr \<lparr>rr_message = ''User registered successfully'', rr_token = token,
                   rr_user = UserResponse_of user\<rparr>, d'))"

subsection \<open>Classes routes\<close>

definition get_classes :: "db \<Rightarrow> UserResponse \<Rightarrow> Class list" where
  "get_classes d current_user =
     (if ur_role current_user = ''teacher''
      then to_list 1000 (filter (\<lambda>c. teacher_id c = ur_id current_user) (db_classes d))
      else to_list 1000 (db_classes d))"

definition create_class :: "env \<Rightarrow> db \<Rightarrow> ClassCreate \<Rightarrow> UserResponse \<Rightarrow> (error + Class) \<times> db" where
  "create_class e d class_data current_user =
     (if ur_role current_user \<noteq> ''admin'' \<and> cc_teacher_id class_data \<noteq> ur_id current_user
      then (Inl (HTTPException 403 ''Not authorized to create class for another teacher''), d)
      else
        let new_class = Class_of e 0 class_data
        in (Inr new_class, d\<lparr>db_classes := insert_one new_class (db_classes d)\<rparr>))"

definition update_class ::
  "env \<Rightarrow> db \<Rightarrow> string \<Rightarrow> ClassCreate \<Rightarrow> UserResponse \<Rightarrow> (error + Class) \<times> db" where
  "update_class e d cid class_data current_user =
     (case find_one (\<lambda>c. cls_id c = cid) (db_classes d) of
        None \<Rightarrow> (Inl (HTTPException 404 ''Class not found''), d)
      | Some existing_class \<Rightarrow>
          if ur_role current_user \<noteq> ''admin'' \<and> teacher_id existing_class \<noteq> ur_id current_user
          then (Inl (HTTPException 403 ''Not authorized to update this class''), d)
          else
            let updated_class = (Class_of e 0 class_data)\<lparr>cls_id := cid\<rparr>
            in (Inr updated_class,
                d\<lparr>db_classes :=
                    update_one (\<lambda>c. cls_id c = cid) (set_Class updated_class) (db_classes d)\<rparr>))"

definition delete_class :: "db \<Rightarrow> string \<Rightarrow> UserResponse \<Rightarrow> (error + string) \<times> db" where
  "delete_class d cid current_user =
     (case find_one (\<lambda>c. cls_id c = cid) (db_classes d) of
        None \<Rightarrow> (Inl (HTTPException 404 ''Class not found''), d)
      | Some existing_class \<Rightarrow>
          if ur_role current_user \<noteq> ''admin'' \<and> teacher_id existing_class \<noteq> ur_id current_user
          then (Inl (HTTPException 403 ''Not authorized to delete this class''), d)
          else (Inr ''Class deleted successfully'',
                d\<lparr>db_classes := delete_one (\<lambda>c. cls_id c = cid) (db_classes d)\<rparr>))"

subsection \<open>Students routes\<close>

text \<open>
  The query parameter \<^verbatim>\<open>class_id\<close> is optional, and the test \<^verbatim>\<open>if class_id:\<close> also
  skips the filter for the empty string.
\<close>

definition get_students :: "db \<Rightarrow> string option \<Rightarrow> UserResponse \<Rightarrow> Student list" where
  "get_students d cid current_user =
     (case cid of
        Some c \<Rightarrow>
          if c \<noteq> [] then to_list 1000 (filter (\<lambda>s. class_id s = c) (db_students d))
          else to_list 1000 (db_students d)
      | None \<Rightarrow> to_list 1000 (db_students d))"

definition create_student ::
  "env \<Rightarrow> db \<Rightarrow> StudentCreate \<Rightarrow> UserResponse \<Rightarrow> (error + Student) \<times> db" where
  "create_student e d student_data current_user =
     (case find_one (\<lambda>c. cls_id c = sc_class_id student_data) (db_classes d) of
        None \<Rightarrow> (Inl (HTTPException 404 ''Class not found''), d)
      | Some class_doc \<Rightarrow>
          if ur_role current_user \<noteq> ''admin'' \<and> teacher_id class_doc \<noteq> ur_id current_user
          then (Inl (HTTPException 403 ''Not authorized to add student to this class''), d)
          else
            let new_student = Student_of e 0 student_data
            in (Inr new_student, d\<lparr>db_students := insert_one new_student (db_students d)\<rparr>))"

text \<open>
  In \<^verbatim>\<open>update_student\<close> and \<^verbatim>\<open>delete_student\<close> the class document is looked up and
  subscripted with no test in between: \<^verbatim>\<open>class_doc["teacher_id"]\<close> on \<^verbatim>\<open>None\<close> raises
  \<^verbatim>\<open>TypeError\<close>. The subscript is the right operand of \<^verbatim>\<open>and\<close>, so an admin never
  evaluates it.
\<close>

definition update_student ::
  "env \<Rightarrow> db \<Rightarrow> string \<Rightarrow> StudentCreate \<Rightarrow> UserResponse \<Rightarrow> (error + Student) \<times> db" where
  "update_student e d sid student_data current_user =
     (case find_one (\<lambda>s. stu_id s = sid) (db_students d) of
        None \<Rightarrow> (Inl (HTTPException 404 ''Student not found''), d)
      | Some existing_student \<Rightarrow>
          let class_doc = find_one (\<lambda>c. cls_id c = sc_class_id student_data) (db_classes d);
              updated_student = (Student_of e 0 student_data)\<lparr>stu_id := sid\<rparr>;
              applied = (Inr updated_student,
                      d\<lparr>db_students :=
                          update_one (\<lambda>s. stu_id s = sid) (set_Student updated_student)
                            (db_students d)\<rparr>)
          in if ur_role current_user \<noteq> ''admin''
             then (case class_doc of
                     None \<Rightarrow> (Inl TypeError, d)
                   | Some c \<Rightarrow>
                       if teacher_id c \<noteq> ur_id current_user
                       then (Inl (HTTPException 403 ''Not authorized to update this student''), d)
                       else applied)
             else applied)"

definition delete_student :: "db \<Rightarrow> string \<Rightarrow> UserResponse \<Rightarrow> (error + string) \<times> db" where
  "delete_student d sid current_user =
     (case find_one (\<lambda>s. stu_id s = sid) (db_students d) of
        None \<Rightarrow> (Inl (HTTPException 404 ''Student not found''), d)
      | Some existing_student \<Rightarrow>
          let class_doc = find_one (\<lambda>c. cls_id c = class_id existing_student) (db_classes d);
              applied = (Inr ''Student deleted successfully'',
                      d\<lparr>db_students := delete_one (\<lambda>s. stu_id s = sid) (db_students d)\<rparr>)
          in if ur_role current_user \<noteq> ''admin''
             then (case class_doc of
                     None \<Rightarrow> (Inl TypeError, d)
                   | Some c \<Rightarrow>
                       if teacher_id c \<noteq> ur_id current_user
                       then (Inl (HTTPException 403 ''Not authorized to delete this student''), d)
                       else applied)
             else applied)"

subsection \<open>Attendance routes\<close>

text \<open>
  The loop of \<^verbatim>\<open>mark_bulk_attendance\<close> over the input records. A record is a free-form
  dictionary; subscripting it with a key it lacks raises \<^verbatim>\<open>KeyError\<close>. The \<open>k\<close>-th
  record gets the \<open>k\<close>-th identifier drawn.
\<close>

fun attendance_loop :: "env \<Rightarrow> string \<Rightarrow> date \<Rightarrow> nat \<Rightarrow> dict list \<Rightarrow> error + Attendance list" where
  "attendance_loop e cid dt k [] = Inr []"
| "attendance_loop e cid dt k (record # records) =
     (case record ''student_id'' of
        None \<Rightarrow> Inl (KeyError ''student_id'')
      | Some sid \<Rightarrow>
          (case record ''status'' of
             None \<Rightarrow> Inl (KeyError ''status'')
           | Some st \<Rightarrow>
               (case attendance_loop e cid dt (Suc k) records of
                  Inl err \<Rightarrow> Inl err
                | Inr rest \<Rightarrow>
                    Inr (\<lparr>att_id = uuid4 e k, att_class_id = cid, student_id = sid,
                          att_date = dt, status = st, att_created_at = utcnow e\<rparr> # rest))))"

text \<open>
  The filter of \<^verbatim>\<open>delete_many\<close> holds the date of the request, so the call raises
  \<^verbatim>\<open>InvalidDocument\<close> before any row is deleted. What follows it in the handler is
  written out as the source has it: the loop over the records, and the insertion of
  the rows when there are any. The response message carries the number of records
  written; the handler returns that number here.
\<close>

definition mark_bulk_attendance ::
  "env \<Rightarrow> db \<Rightarrow> AttendanceBulkCreate \<Rightarrow> UserResponse \<Rightarrow> (error + nat) \<times> db" where
  "mark_bulk_attendance e d attendance_data current_user =
     (case find_one (\<lambda>c. cls_id c = ab_class_id attendance_data) (db_classes d) of
        None \<Rightarrow> (Inl (HTTPException 404 ''Class not found''), d)
      | Some class_doc \<Rightarrow>
          if ur_role current_user \<noteq> ''admin'' \<and> teacher_id class_doc \<noteq> ur_id current_user
          then (Inl (HTTPException 403 ''Not authorized to mark attendance for this class''), d)
          else
            (case bson_encode_all [PyStr (ab_class_id attendance_data),
                                   PyDate (ab_date attendance_data)] of
               Inl err \<Rightarrow> (Inl err, d)
             | Inr query \<Rightarrow>
                 let d1 = d\<lparr>db_attendance :=
                              delete_many (\<lambda>a. att_class_id a = ab_class_id attendance_data
                                                 \<and> att_date a = ab_date attendance_data)
                                (db_attendance d)\<rparr>
                 in (case attendance_loop e (ab_class_id attendance_data)
                            (ab_date attendance_data) 0 (attendance_records attendance_data) of
                       Inl err \<Rightarrow> (Inl err, d1)
                     | Inr records \<Rightarrow>
                         if records \<noteq> []
                         then (case bson_encode_all (concat (map Attendance_dict records)) of
                                 Inl err \<Rightarrow> (Inl err, d1)
                               | Inr documents \<Rightarrow>
                                   (Inr (length records),
                                    d1\<lparr>db_attendance :=
                                         insert_many records (db_attendance d1)\<rparr>))
                         else (Inr (length records), d1))))"

record AttendanceEntry =
  ae_student_id :: string
  ae_student_name :: string
  ae_roll_number :: string
  ae_status :: string

text \<open>The dictionary comprehension: a later row overwrites an earlier one with the same key.\<close>

definition attendance_map :: "Attendance list \<Rightarrow> string \<rightharpoonup> string" where
  "attendance_map records = foldl (\<lambda>m r. m(student_id r \<mapsto> status r)) Map.empty records"

definition get_or :: "('k \<rightharpoonup> 'v) \<Rightarrow> 'k \<Rightarrow> 'v \<Rightarrow> 'v" where
  "get_or m k dflt = (case m k of Some v \<Rightarrow> v | None \<Rightarrow> dflt)"

definition get_attendance ::
  "db \<Rightarrow> string \<Rightarrow> date \<Rightarrow> UserResponse \<Rightarrow> error + AttendanceEntry list" where
  "get_attendance d cid dt current_user =
     (case find_one (\<lambda>c. cls_id c = cid) (db_classes d) of
        None \<Rightarrow> Inl (HTTPException 404 ''Class not found'')
      | Some class_doc \<Rightarrow>
          if ur_role current_user \<noteq> ''admin'' \<and> teacher_id class_doc \<noteq> ur_id current_user
          then Inl (HTTPException 403 ''Not authorized to view attendance for this class'')
          else
            let students = to_list 1000 (filter (\<lambda>s. class_id s = cid) (db_students d))
            in (case bson_encode_all [PyStr cid, PyDate dt] of
                  Inl err \<Rightarrow> Inl err
                | Inr query \<Rightarrow>
                    let records = to_list 1000
                          (filter (\<lambda>a. att_class_id a = cid \<and> att_date a = dt)
                             (db_attendance d));
                        amap = attendance_map records
                    in Inr (map (\<lambda>student.
                          \<lparr>ae_student_id = stu_id student, ae_student_name = stu_name student,
                           ae_roll_number = roll_number student,
                           ae_status = get_or amap (stu_id student) ''not_marked''\<rparr>)
                          students)))"

subsection \<open>The CSV report\<close>

text \<open>
  The header loop of \<^verbatim>\<open>download_attendance_csv\<close>: while \<^verbatim>\<open>current_date <= end_date\<close>,
  append the rendering of \<^verbatim>\<open>current_date\<close> and add one day to it.
\<close>

function date_range_loop :: "env \<Rightarrow> date \<Rightarrow> date \<Rightarrow> string list \<Rightarrow> error + string list" where
  "date_range_loop e current_date end_date date_range =
     (if current_date \<le> end_date
      then (case add_one_day current_date of
              Inl err \<Rightarrow> Inl err
            | Inr next_date \<Rightarrow>
                date_range_loop e next_date end_date
                  (date_range @ [strftime_Ymd e current_date]))
      else Inr date_range)"
  by pat_completeness auto
termination
  by (relation "measure (\<lambda>(e, c, n, r). nat (n + 1 - c))")
     (auto simp: add_one_day_def split: if_splits)

declare date_range_loop.simps [simp del]

definition csv_attendance_map :: "env \<Rightarrow> Attendance list \<Rightarrow> string \<rightharpoonup> string" where
  "csv_attendance_map e records =
     foldl (\<lambda>m r. m(student_id r @ ''_'' @ date_str e (att_date r) \<mapsto> status r))
       Map.empty records"

text \<open>
  The response is the list of rows handed to \<^verbatim>\<open>csv.writer\<close> (header first), the media
  type and the file name of the \<^verbatim>\<open>Content-Disposition\<close> header.
\<close>

record CsvResponse =
  csv_rows :: "string list list"
  media_type :: string
  filename :: string

definition download_attendance_csv ::
  "env \<Rightarrow> db \<Rightarrow> string \<Rightarrow> date \<Rightarrow> date \<Rightarrow> UserResponse \<Rightarrow> error + CsvResponse" where
  "download_attendance_csv e d cid start_date end_date current_user =
     (case find_one (\<lambda>c. cls_id c = cid) (db_classes d) of
        None \<Rightarrow> Inl (HTTPException 404 ''Class not found'')
      | Some class_doc \<Rightarrow>
          if ur_role current_user \<noteq> ''admin'' \<and> teacher_id class_doc \<noteq> ur_id current_user
          then Inl (HTTPException 403 ''Not authorized to generate report for this class'')
          else
            let students = to_list 1000 (filter (\<lambda>s. class_id s = cid) (db_students d))
            in (case bson_encode_all [PyStr cid, PyDate start_date, PyDate end_date] of
                  Inl err \<Rightarrow> Inl err
                | Inr query \<Rightarrow>
                    let records = to_list 1000
                          (filter (\<lambda>a. att_class_id a = cid \<and> start_date \<le> att_date a
                                         \<and> att_date a \<le> end_date) (db_attendance d))
                    in (case date_range_loop e start_date end_date [] of
                          Inl err \<Rightarrow> Inl err
                        | Inr date_range \<Rightarrow>
                            let header = [''Student Name'', ''Roll Number''] @ date_range;
                                amap = csv_attendance_map e records;
                                body = map (\<lambda>student.
                                         [stu_name student, roll_number student] @
                                         map (\<lambda>ds. get_or amap (stu_id student @ ''_'' @ ds)
                                                     ''not_marked'') date_range) students
                            in Inr \<lparr>csv_rows = header # body, media_type = ''text/csv'',
                                    filename = ''attendance_report_'' @ cid @ ''_'' @
                                      date_str e start_date @ ''_'' @ date_str e end_date
                                      @ ''.csv''\<rparr>)))"

subsection \<open>The policy of the specification\<close>

text \<open>
  The specification's rule, in its own words: \<^verbatim>\<open>actor.role == "admin" OR actor.id ==
  ownerTeacherId\<close>. The handlers do not call a function of this name; each writes the
  negated test inline.
\<close>

definition canMutate :: "UserResponse \<Rightarrow> string \<Rightarrow> bool" where
  "canMutate actor ownerTeacherId = (ur_role actor = ''admin'' \<or> ur_id actor = ownerTeacherId)"

text \<open>
  The partition of the ledger (glossary of the specification): the attendance rows that
  share one (class id, date) pair.
\<close>

definition partition_rows :: "string \<Rightarrow> date \<Rightarrow> db \<Rightarrow> Attendance list" where
  "partition_rows cid dt d =
     filter (\<lambda>a. att_class_id a = cid \<and> att_date a = dt) (db_attendance d)"

subsection \<open>A scenario\<close>

text \<open>
  The end-to-end scenario of the specification, used to instantiate the theorems below:
  an admin A, teachers T and T2, class C of teacher T and class D of teacher T2, students
  S1 and S2 in class C. The environment renders the few days the scenario names.
\<close>

definition scenario_day :: "date \<Rightarrow> string" where
  "scenario_day dt =
     (if dt = 738895 then ''2024-01-10'' else if dt = 738896 then ''2024-01-11''
      else if dt = date_max then ''9999-12-31'' else ''0001-01-01'')"

definition env0 :: env where
  "env0 = \<lparr>utcnow = 1704844800, uuid4 = (\<lambda>k. ''uuid-'' @ replicate k CHR ''i''),
           pwd_context_hash = (\<lambda>p. ''bcrypt:'' @ p), jwt_encode = (\<lambda>u. ''jwt:'' @ u),
           strftime_Ymd = scenario_day, date_str = scenario_day\<rparr>"

definition admin_A :: UserResponse where
  "admin_A = \<lparr>ur_id = ''A'', ur_username = ''alice'', ur_email = ''a@school'',
              ur_role = ''admin'', ur_created_at = 1\<rparr>"

definition teacher_T :: UserResponse where
  "teacher_T = \<lparr>ur_id = ''T'', ur_username = ''tom'', ur_email = ''t@school'',
                ur_role = ''teacher'', ur_created_at = 2\<rparr>"

definition teacher_T2 :: UserResponse where
  "teacher_T2 = \<lparr>ur_id = ''T2'', ur_username = ''tina'', ur_email = ''t2@school'',
                 ur_role = ''teacher'', ur_created_at = 3\<rparr>"

definition class_C :: Class where
  "class_C = \<lparr>cls_id = ''C'', cls_name = ''5a'', subject = ''maths'', teacher_id = ''T'',
              cls_created_at = 4\<rparr>"

definition class_D :: Class where
  "class_D = \<lparr>cls_id = ''D'', cls_name = ''5b'', subject = ''physics'', teacher_id = ''T2'',
              cls_created_at = 5\<rparr>"

definition student_S1 :: Student where
  "student_S1 = \<lparr>stu_id = ''S1'', stu_name = ''sam'', stu_email = ''s1@school'',
                 class_id = ''C'', roll_number = ''1'', stu_created_at = 6\<rparr>"

definition student_S2 :: Student where
  "student_S2 = \<lparr>stu_id = ''S2'', stu_name = ''sue'', stu_email = ''s2@school'',
                 class_id = ''C'', roll_number = ''2'', stu_created_at = 7\<rparr>"

definition db0 :: db where
  "db0 = \<lparr>db_users = [], db_classes = [class_C, class_D],
          db_students = [student_S1, student_S2], db_attendance = []\<rparr>"

definition rename_C :: ClassCreate where
  "rename_C = \<lparr>cc_name = ''5c'', cc_subject = ''maths'', cc_teacher_id = ''T''\<rparr>"

definition move_to_D :: StudentCreate where
  "move_to_D = \<lparr>sc_name = ''sam'', sc_email = ''s1@school'', sc_class_id = ''D'',
                sc_roll_number = ''1''\<rparr>"

definition move_to_nowhere :: StudentCreate where
  "move_to_nowhere = \<lparr>sc_name = ''sam'', sc_email = ''s1@school'', sc_class_id = ''Z'',
                      sc_roll_number = ''1''\<rparr>"

definition keep_in_C :: StudentCreate where
  "keep_in_C = \<lparr>sc_name = ''sam'', sc_email = ''sam@school'', sc_class_id = ''C'',
                sc_roll_number = ''1''\<rparr>"

definition marks_C :: AttendanceBulkCreate where
  "marks_C = \<lparr>ab_class_id = ''C'', ab_date = 738895,
              attendance_records =
                [[''student_id'' \<mapsto> ''S1'', ''status'' \<mapsto> ''present''],
                 [''student_id'' \<mapsto> ''S2'', ''status'' \<mapsto> ''absent'']]\<rparr>"

definition marks_Z :: AttendanceBulkCreate where
  "marks_Z = \<lparr>ab_class_id = ''Z'', ab_date = 738895, attendance_records = []\<rparr>"

definition signup_1 :: UserCreate where
  "signup_1 = \<lparr>uc_username = ''tom'', uc_email = ''t@school'', uc_password = ''pw1'',
               uc_role = ''teacher''\<rparr>"

definition signup_2 :: UserCreate where
  "signup_2 = \<lparr>uc_username = ''tim'', uc_email = ''t@school'', uc_password = ''pw2'',
               uc_role = ''admin''\<rparr>"

text \<open>
  The store after the admin has deleted class C: S1 and S2 still name it (students are
  not removed with their class).
\<close>

definition db_orphaned :: db where
  "db_orphaned = db0\<lparr>db_classes := [class_D]\<rparr>"

text \<open>A large store: a school with \<open>n\<close> classes, all taught by T.\<close>

definition throng :: "nat \<Rightarrow> Class list" where
  "throng n = map (\<lambda>k. \<lparr>cls_id = ''C'' @ replicate k CHR ''i'', cls_name = ''form'',
                         subject = ''maths'', teacher_id = ''T'', cls_created_at = 11\<rparr>) [0..<n]"

definition db_throng :: db where
  "db_throng = db0\<lparr>db_classes := throng 1001\<rparr>"

lemmas scenario_defs = db_orphaned_def signup_1_def signup_2_def keep_in_C_def marks_C_def marks_Z_def env0_def admin_A_def teacher_T_def teacher_T2_def class_C_def class_D_def
  student_S1_def student_S2_def db0_def rename_C_def move_to_D_def move_to_nowhere_def
  find_one_def

section \<open>Properties\<close>

subsection \<open>The store operations\<close>

lemma find_one_SomeD: "find_one q xs = Some x \<Longrightarrow> q x \<and> x \<in> set xs"
  by (auto simp: find_one_def find_Some_iff)

lemma find_one_None_iff: "(find_one q xs = None) = (\<forall>x\<in>set xs. \<not> q x)"
  by (auto simp: find_one_def find_None_iff)

lemma find_one_update_one:
  "find_one q xs = Some x \<Longrightarrow> q (f x) \<Longrightarrow> find_one q (update_one q f xs) = Some (f x)"
  by (induction xs) (auto simp: find_one_def split: if_splits)

text \<open>A model has no field beyond the ones \<^verbatim>\<open>$set\<close> writes, so the update replaces it.\<close>

lemma set_Class_eq: "set_Class new doc = new"
  by (cases new, cases doc) (simp add: set_Class_def)

lemma set_Student_eq: "set_Student new doc = new"
  by (cases new, cases doc) (simp add: set_Student_def)

subsection \<open>The loops raise only their own errors\<close>

lemma attendance_loop_error:
  "attendance_loop e cid dt k records = Inl err \<Longrightarrow> \<exists>key. err = KeyError key"
  by (induction records arbitrary: k) (auto split: option.splits sum.splits)

lemma date_range_loop_error:
  "date_range_loop e c n r = Inl err \<Longrightarrow> err = OverflowError"
proof (induction e c n r rule: date_range_loop.induct)
  case (1 e c n r)
  then show ?case
    by (subst (asm) (2) date_range_loop.simps)
       (auto simp: add_one_day_def split: if_splits)
qed

subsection \<open>Student update: the class named by the payload\<close>

text \<open>
  Claim C9. In \<^verbatim>\<open>update_student\<close> the class named by the payload's \<^verbatim>\<open>class_id\<close> is
  looked up with no existence guard. When the student exists, the actor is not an admin
  and no stored class has that id, the handler raises \<^verbatim>\<open>TypeError\<close> on the subscript of
  the missing document: the outcome is neither NotFound nor Forbidden, and nothing is
  written.
\<close>

theorem update_student_missing_class:
  assumes "find_one (\<lambda>s. stu_id s = sid) (db_students d) = Some existing_student"
    and "ur_role current_user \<noteq> ''admin''"
    and "find_one (\<lambda>c. cls_id c = sc_class_id student_data) (db_classes d) = None"
  shows "update_student e d sid student_data current_user = (Inl TypeError, d)
       \<and> \<not> is_NotFound (fst (update_student e d sid student_data current_user))
       \<and> \<not> is_Forbidden (fst (update_student e d sid student_data current_user))"
  using assms by (simp add: update_student_def is_NotFound_def is_Forbidden_def status_code_def)

theorem update_student_missing_class_witness:
  "update_student env0 db0 ''S1'' move_to_nowhere teacher_T = (Inl TypeError, db0)
   \<and> \<not> is_NotFound (fst (update_student env0 db0 ''S1'' move_to_nowhere teacher_T))
   \<and> \<not> is_Forbidden (fst (update_student env0 db0 ''S1'' move_to_nowhere teacher_T))"
proof -
  have found: "find_one (\<lambda>s. stu_id s = ''S1'') (db_students db0) = Some student_S1"
    by (simp add: scenario_defs)
  have teacher: "ur_role teacher_T \<noteq> ''admin''"
    by (simp add: scenario_defs)
  have missing: "find_one (\<lambda>c. cls_id c = sc_class_id move_to_nowhere) (db_classes db0) = None"
    by (simp add: scenario_defs)
  show ?thesis
    by (rule update_student_missing_class [OF found teacher missing])
qed

text \<open>
  Claim C5. On student update, once the existing student is found, the permission of a
  non-admin actor is evaluated against the \<^verbatim>\<open>teacher_id\<close> of the class named by the new
  \<^verbatim>\<open>class_id\<close> of the payload, not against the student's current class (which the
  statement does not mention): the update is Forbidden exactly when the actor is not the
  teacher of the destination class, and otherwise succeeds and stores the student under
  the new \<^verbatim>\<open>class_id\<close>. So a teacher moves any student into a class they own.
\<close>

theorem update_student_checks_new_class:
  assumes "find_one (\<lambda>s. stu_id s = sid) (db_students d) = Some existing_student"
    and "ur_role current_user \<noteq> ''admin''"
    and "find_one (\<lambda>c. cls_id c = sc_class_id student_data) (db_classes d) = Some new_class"
  shows "is_Forbidden (fst (update_student e d sid student_data current_user))
           = (teacher_id new_class \<noteq> ur_id current_user)
       \<and> (teacher_id new_class = ur_id current_user \<longrightarrow>
            (\<exists>updated d'. update_student e d sid student_data current_user = (Inr updated, d')
               \<and> class_id updated = sc_class_id student_data
               \<and> find_one (\<lambda>s. stu_id s = sid) (db_students d') = Some updated))"
  using assms
  by (auto simp: update_student_def is_Forbidden_def status_code_def Let_def Student_of_def
      set_Student_eq find_one_update_one)

text \<open>
  In the scenario, T2 does not teach class C, where S1 is, and moves S1 into their own
  class D; T, who teaches S1's current class, is refused the same update.
\<close>

theorem update_student_checks_new_class_witness:
  "class_id student_S1 = ''C'' \<and> teacher_id class_C \<noteq> ur_id teacher_T2
   \<and> \<not> is_Forbidden (fst (update_student env0 db0 ''S1'' move_to_D teacher_T2))
   \<and> is_Forbidden (fst (update_student env0 db0 ''S1'' move_to_D teacher_T))
   \<and> (\<exists>updated d'. update_student env0 db0 ''S1'' move_to_D teacher_T2 = (Inr updated, d')
               \<and> class_id updated = ''D''
               \<and> find_one (\<lambda>s. stu_id s = ''S1'') (db_students d') = Some updated)"
proof -
  have found: "find_one (\<lambda>s. stu_id s = ''S1'') (db_students db0) = Some student_S1"
    by (simp add: scenario_defs)
  have dest: "find_one (\<lambda>c. cls_id c = sc_class_id move_to_D) (db_classes db0) = Some class_D"
    by (simp add: scenario_defs)
  have t: "ur_role teacher_T \<noteq> ''admin''" and t2: "ur_role teacher_T2 \<noteq> ''admin''"
    by (simp_all add: scenario_defs)
  have own: "teacher_id class_D = ur_id teacher_T2" "teacher_id class_D \<noteq> ur_id teacher_T"
    "sc_class_id move_to_D = ''D''" "class_id student_S1 = ''C''"
    "teacher_id class_C \<noteq> ur_id teacher_T2"
    by (simp_all add: scenario_defs)
  show ?thesis
    using update_student_checks_new_class [OF found t2 dest, of env0]
      update_student_checks_new_class [OF found t dest, of env0] own
    by simp
qed

subsection \<open>Updates rebuild the document\<close>

text \<open>
  Claim C10. A successful class update and a successful student update replace the whole
  stored document by one rebuilt from the request payload: every payload field is copied,
  the id is the path parameter, and \<^verbatim>\<open>created_at\<close> is the time of the update, whatever
  the stored document held. The rebuilt document is what the handler returns and what a
  lookup by that id finds afterwards.
\<close>

theorem update_rebuilds_document:
  "(fst (update_class e d cid class_data current_user) = Inr updated \<longrightarrow>
      updated = \<lparr>cls_id = cid, cls_name = cc_name class_data, subject = cc_subject class_data,
                 teacher_id = cc_teacher_id class_data, cls_created_at = utcnow e\<rparr>
      \<and> find_one (\<lambda>c. cls_id c = cid)
            (db_classes (snd (update_class e d cid class_data current_user))) = Some updated)
   \<and> (fst (update_student e d sid student_data current_user) = Inr updated_s \<longrightarrow>
      updated_s = \<lparr>stu_id = sid, stu_name = sc_name student_data,
                   stu_email = sc_email student_data, class_id = sc_class_id student_data,
                   roll_number = sc_roll_number student_data, stu_created_at = utcnow e\<rparr>
      \<and> find_one (\<lambda>s. stu_id s = sid)
            (db_students (snd (update_student e d sid student_data current_user)))
          = Some updated_s)"
  by (auto simp: update_class_def update_student_def Class_of_def Student_of_def Let_def
      set_Class_eq set_Student_eq find_one_update_one
      split: option.splits if_splits)

text \<open>
  In the scenario class C was created at time 4 and S1 at time 6; after T updates them
  at time 1704844800 the stored documents carry the time of the update.
\<close>

theorem update_rebuilds_document_witness:
  "cls_created_at class_C = 4 \<and> stu_created_at student_S1 = 6
   \<and> find_one (\<lambda>c. cls_id c = ''C'') (db_classes (snd (update_class env0 db0 ''C'' rename_C teacher_T)))
       = Some \<lparr>cls_id = ''C'', cls_name = ''5c'', subject = ''maths'', teacher_id = ''T'',
               cls_created_at = 1704844800\<rparr>
   \<and> find_one (\<lambda>s. stu_id s = ''S1'')
         (db_students (snd (update_student env0 db0 ''S1'' move_to_D teacher_T2)))
       = Some \<lparr>stu_id = ''S1'', stu_name = ''sam'', stu_email = ''s1@school'', class_id = ''D'',
               roll_number = ''1'', stu_created_at = 1704844800\<rparr>"
proof -
  let ?c = "\<lparr>cls_id = ''C'', cls_name = ''5c'', subject = ''maths'', teacher_id = ''T'',
             cls_created_at = 1704844800\<rparr>"
  let ?s = "\<lparr>stu_id = ''S1'', stu_name = ''sam'', stu_email = ''s1@school'', class_id = ''D'',
             roll_number = ''1'', stu_created_at = 1704844800\<rparr>"
  have c: "fst (update_class env0 db0 ''C'' rename_C teacher_T) = Inr ?c"
    by (simp add: update_class_def Class_of_def Let_def scenario_defs)
  have s: "fst (update_student env0 db0 ''S1'' move_to_D teacher_T2) = Inr ?s"
    by (simp add: update_student_def Student_of_def Let_def scenario_defs)
  have old: "cls_created_at class_C = 4" "stu_created_at student_S1 = 6"
    by (simp_all add: scenario_defs)
  have c': "find_one (\<lambda>c. cls_id c = ''C'')
      (db_classes (snd (update_class env0 db0 ''C'' rename_C teacher_T))) = Some ?c"
    using update_rebuilds_document [of env0 db0 "''C''" rename_C teacher_T ?c
        "''S1''" move_to_D ?s] c
    by blast
  have s': "find_one (\<lambda>s. stu_id s = ''S1'')
      (db_students (snd (update_student env0 db0 ''S1'' move_to_D teacher_T2))) = Some ?s"
    using update_rebuilds_document [of env0 db0 "''C''" rename_C teacher_T2 ?c
        "''S1''" move_to_D ?s] s
    by blast
  from old c' s' show ?thesis
    by blast
qed

subsection \<open>The outcome of each handler on a missing target and on a refused actor\<close>

lemma update_class_not_found:
  "find_one (\<lambda>c. cls_id c = cid) (db_classes d) = None \<Longrightarrow>
   update_class e d cid class_data u = (Inl (HTTPException 404 ''Class not found''), d)"
  by (simp add: update_class_def)

lemma delete_class_not_found:
  "find_one (\<lambda>c. cls_id c = cid) (db_classes d) = None \<Longrightarrow>
   delete_class d cid u = (Inl (HTTPException 404 ''Class not found''), d)"
  by (simp add: delete_class_def)

lemma create_student_not_found:
  "find_one (\<lambda>c. cls_id c = sc_class_id student_data) (db_classes d) = None \<Longrightarrow>
   create_student e d student_data u = (Inl (HTTPException 404 ''Class not found''), d)"
  by (simp add: create_student_def)

lemma update_student_not_found:
  "find_one (\<lambda>s. stu_id s = sid) (db_students d) = None \<Longrightarrow>
   update_student e d sid student_data u = (Inl (HTTPException 404 ''Student not found''), d)"
  by (simp add: update_student_def)

lemma delete_student_not_found:
  "find_one (\<lambda>s. stu_id s = sid) (db_students d) = None \<Longrightarrow>
   delete_student d sid u = (Inl (HTTPException 404 ''Student not found''), d)"
  by (simp add: delete_student_def)

lemma mark_bulk_attendance_not_found:
  "find_one (\<lambda>c. cls_id c = ab_class_id attendance_data) (db_classes d) = None \<Longrightarrow>
   mark_bulk_attendance e d attendance_data u = (Inl (HTTPException 404 ''Class not found''), d)"
  by (simp add: mark_bulk_attendance_def)

lemma is_NotFound_404: "is_NotFound (Inl (HTTPException 404 detail))"
  by (simp add: is_NotFound_def status_code_def)

lemma create_class_forbidden:
  "is_Forbidden (fst (create_class e d class_data u)) = (\<not> canMutate u (cc_teacher_id class_data))"
  by (auto simp: create_class_def canMutate_def is_Forbidden_def status_code_def Let_def)

lemma update_class_forbidden:
  "find_one (\<lambda>c. cls_id c = cid) (db_classes d) = Some c \<Longrightarrow>
   is_Forbidden (fst (update_class e d cid class_data u)) = (\<not> canMutate u (teacher_id c))"
  by (auto simp: update_class_def canMutate_def is_Forbidden_def status_code_def Let_def)

lemma delete_class_forbidden:
  "find_one (\<lambda>c. cls_id c = cid) (db_classes d) = Some c \<Longrightarrow>
   is_Forbidden (fst (delete_class d cid u)) = (\<not> canMutate u (teacher_id c))"
  by (auto simp: delete_class_def canMutate_def is_Forbidden_def status_code_def)

lemma create_student_forbidden:
  "find_one (\<lambda>c. cls_id c = sc_class_id student_data) (db_classes d) = Some c \<Longrightarrow>
   is_Forbidden (fst (create_student e d student_data u)) = (\<not> canMutate u (teacher_id c))"
  by (auto simp: create_student_def canMutate_def is_Forbidden_def status_code_def Let_def)

lemma update_student_forbidden:
  "find_one (\<lambda>s. stu_id s = sid) (db_students d) = Some s \<Longrightarrow>
   find_one (\<lambda>c. cls_id c = sc_class_id student_data) (db_classes d) = Some c \<Longrightarrow>
   is_Forbidden (fst (update_student e d sid student_data u)) = (\<not> canMutate u (teacher_id c))"
  by (auto simp: update_student_def canMutate_def is_Forbidden_def status_code_def Let_def)

lemma delete_student_forbidden:
  "find_one (\<lambda>s. stu_id s = sid) (db_students d) = Some s \<Longrightarrow>
   find_one (\<lambda>c. cls_id c = class_id s) (db_classes d) = Some c \<Longrightarrow>
   is_Forbidden (fst (delete_student d sid u)) = (\<not> canMutate u (teacher_id c))"
  by (auto simp: delete_student_def canMutate_def is_Forbidden_def status_code_def Let_def)

lemma mark_bulk_attendance_forbidden:
  "find_one (\<lambda>c. cls_id c = ab_class_id attendance_data) (db_classes d) = Some c \<Longrightarrow>
   is_Forbidden (fst (mark_bulk_attendance e d attendance_data u)) = (\<not> canMutate u (teacher_id c))"
  by (auto simp: mark_bulk_attendance_def canMutate_def is_Forbidden_def status_code_def Let_def
      split: sum.splits dest!: attendance_loop_error)

lemma get_attendance_forbidden:
  "find_one (\<lambda>c. cls_id c = cid) (db_classes d) = Some c \<Longrightarrow>
   is_Forbidden (get_attendance d cid dt u) = (\<not> canMutate u (teacher_id c))"
  by (auto simp: get_attendance_def canMutate_def is_Forbidden_def status_code_def Let_def)

lemma download_attendance_csv_forbidden:
  "find_one (\<lambda>c. cls_id c = cid) (db_classes d) = Some c \<Longrightarrow>
   is_Forbidden (download_attendance_csv e d cid start_date end_date u)
     = (\<not> canMutate u (teacher_id c))"
  by (auto simp: download_attendance_csv_def canMutate_def is_Forbidden_def status_code_def Let_def
      split: sum.splits dest!: date_range_loop_error)

text \<open>A refused mutation writes nothing.\<close>

lemma forbidden_leaves_store:
  "is_Forbidden (fst (create_class e d class_data u)) \<Longrightarrow> snd (create_class e d class_data u) = d"
  "is_Forbidden (fst (update_class e d cid class_data u)) \<Longrightarrow>
     snd (update_class e d cid class_data u) = d"
  "is_Forbidden (fst (delete_class d cid u)) \<Longrightarrow> snd (delete_class d cid u) = d"
  "is_Forbidden (fst (create_student e d student_data u)) \<Longrightarrow>
     snd (create_student e d student_data u) = d"
  "is_Forbidden (fst (update_student e d sid student_data u)) \<Longrightarrow>
     snd (update_student e d sid student_data u) = d"
  "is_Forbidden (fst (delete_student d sid u)) \<Longrightarrow> snd (delete_student d sid u) = d"
  "is_Forbidden (fst (mark_bulk_attendance e d attendance_data u)) \<Longrightarrow>
     snd (mark_bulk_attendance e d attendance_data u) = d"
  by (auto simp: create_class_def update_class_def delete_class_def create_student_def
      update_student_def delete_student_def mark_bulk_attendance_def
      is_Forbidden_def status_code_def Let_def
      split: option.splits if_splits sum.splits dest!: attendance_loop_error)

subsection \<open>One rule for every endpoint\<close>

text \<open>
  Claim C1. For every authenticated actor \<open>u\<close> and every operation on a class, a student
  or attendance whose owning teacher id is \<open>o\<close>, the operation is refused with Forbidden
  if and only if \<open>canMutate u o\<close> fails, that is, it is permitted if and only if the
  actor's role is admin or the actor's id is \<open>o\<close>. The one rule governs class create,
  update and delete, student create, update and delete, the attendance bulk write, the
  attendance read and the CSV report. The owner is the one each handler resolves: the
  \<^verbatim>\<open>teacher_id\<close> of the payload for class create, of the stored class for class update
  and delete and for the three attendance endpoints, of the class named by the payload
  for student create and update, and of the stored student's class for student delete.
\<close>

theorem policy_governs_every_endpoint:
  "is_Forbidden (fst (create_class e d new_class u)) = (\<not> canMutate u (cc_teacher_id new_class))
   \<and> (find_one (\<lambda>c. cls_id c = cid) (db_classes d) = Some c \<longrightarrow>
        is_Forbidden (fst (update_class e d cid class_data u)) = (\<not> canMutate u (teacher_id c))
      \<and> is_Forbidden (fst (delete_class d cid u)) = (\<not> canMutate u (teacher_id c))
      \<and> is_Forbidden (get_attendance d cid dt u) = (\<not> canMutate u (teacher_id c))
      \<and> is_Forbidden (download_attendance_csv e d cid start_date end_date u)
          = (\<not> canMutate u (teacher_id c)))
   \<and> (find_one (\<lambda>c. cls_id c = sc_class_id new_student) (db_classes d) = Some c1 \<longrightarrow>
        is_Forbidden (fst (create_student e d new_student u)) = (\<not> canMutate u (teacher_id c1)))
   \<and> (find_one (\<lambda>s. stu_id s = sid) (db_students d) = Some s
      \<and> find_one (\<lambda>c. cls_id c = sc_class_id student_data) (db_classes d) = Some c2 \<longrightarrow>
        is_Forbidden (fst (update_student e d sid student_data u))
          = (\<not> canMutate u (teacher_id c2)))
   \<and> (find_one (\<lambda>s. stu_id s = sid) (db_students d) = Some s
      \<and> find_one (\<lambda>c. cls_id c = class_id s) (db_classes d) = Some c3 \<longrightarrow>
        is_Forbidden (fst (delete_student d sid u)) = (\<not> canMutate u (teacher_id c3)))
   \<and> (find_one (\<lambda>c. cls_id c = ab_class_id attendance_data) (db_classes d) = Some c4 \<longrightarrow>
        is_Forbidden (fst (mark_bulk_attendance e d attendance_data u))
          = (\<not> canMutate u (teacher_id c4)))"
  using create_class_forbidden [of e d new_class u]
    update_class_forbidden [of cid d c e class_data u]
    delete_class_forbidden [of cid d c u]
    get_attendance_forbidden [of cid d c dt u]
    download_attendance_csv_forbidden [of cid d c e start_date end_date u]
    create_student_forbidden [of new_student d c1 e u]
    update_student_forbidden [of sid d s student_data c2 e u]
    delete_student_forbidden [of sid d s c3 u]
    mark_bulk_attendance_forbidden [of attendance_data d c4 e u]
  by blast

text \<open>
  The matrix of the scenario on class C, owned by T: the owner T and the admin A (who owns
  nothing) are let through every endpoint, the teacher T2 is refused by every one.
\<close>

theorem policy_governs_every_endpoint_witness:
  "(\<not> is_Forbidden (fst (create_class env0 db0 rename_C teacher_T))
    \<and> \<not> is_Forbidden (fst (update_class env0 db0 ''C'' rename_C teacher_T))
    \<and> \<not> is_Forbidden (fst (delete_class db0 ''C'' teacher_T))
    \<and> \<not> is_Forbidden (get_attendance db0 ''C'' 738895 teacher_T)
    \<and> \<not> is_Forbidden (download_attendance_csv env0 db0 ''C'' 738895 738896 teacher_T)
    \<and> \<not> is_Forbidden (fst (create_student env0 db0 keep_in_C teacher_T))
    \<and> \<not> is_Forbidden (fst (update_student env0 db0 ''S1'' keep_in_C teacher_T))
    \<and> \<not> is_Forbidden (fst (delete_student db0 ''S1'' teacher_T))
    \<and> \<not> is_Forbidden (fst (mark_bulk_attendance env0 db0 marks_C teacher_T)))
   \<and> (\<not> is_Forbidden (fst (create_class env0 db0 rename_C admin_A))
    \<and> \<not> is_Forbidden (fst (update_class env0 db0 ''C'' rename_C admin_A))
    \<and> \<not> is_Forbidden (fst (delete_class db0 ''C'' admin_A))
    \<and> \<not> is_Forbidden (get_attendance db0 ''C'' 738895 admin_A)
    \<and> \<not> is_Forbidden (download_attendance_csv env0 db0 ''C'' 738895 738896 admin_A)
    \<and> \<not> is_Forbidden (fst (create_student env0 db0 keep_in_C admin_A))
    \<and> \<not> is_Forbidden (fst (update_student env0 db0 ''S1'' keep_in_C admin_A))
    \<and> \<not> is_Forbidden (fst (delete_student db0 ''S1'' admin_A))
    \<and> \<not> is_Forbidden (fst (mark_bulk_attendance env0 db0 marks_C admin_A)))
   \<and> (is_Forbidden (fst (create_class env0 db0 rename_C teacher_T2))
    \<and> is_Forbidden (fst (update_class env0 db0 ''C'' rename_C teacher_T2))
    \<and> is_Forbidden (fst (delete_class db0 ''C'' teacher_T2))
    \<and> is_Forbidden (get_attendance db0 ''C'' 738895 teacher_T2)
    \<and> is_Forbidden (download_attendance_csv env0 db0 ''C'' 738895 738896 teacher_T2)
    \<and> is_Forbidden (fst (create_student env0 db0 keep_in_C teacher_T2))
    \<and> is_Forbidden (fst (update_student env0 db0 ''S1'' keep_in_C teacher_T2))
    \<and> is_Forbidden (fst (delete_student db0 ''S1'' teacher_T2))
    \<and> is_Forbidden (fst (mark_bulk_attendance env0 db0 marks_C teacher_T2)))"
proof -
  have cls: "find_one (\<lambda>c. cls_id c = ''C'') (db_classes db0) = Some class_C"
    and new: "find_one (\<lambda>c. cls_id c = sc_class_id keep_in_C) (db_classes db0) = Some class_C"
    and stu: "find_one (\<lambda>s. stu_id s = ''S1'') (db_students db0) = Some student_S1"
    and own: "find_one (\<lambda>c. cls_id c = class_id student_S1) (db_classes db0) = Some class_C"
    and blk: "find_one (\<lambda>c. cls_id c = ab_class_id marks_C) (db_classes db0) = Some class_C"
    by (simp_all add: scenario_defs)
  have who: "canMutate teacher_T (teacher_id class_C)" "canMutate admin_A (teacher_id class_C)"
    "\<not> canMutate teacher_T2 (teacher_id class_C)" "cc_teacher_id rename_C = teacher_id class_C"
    by (simp_all add: canMutate_def scenario_defs)
  note rule = policy_governs_every_endpoint [where e = env0 and d = db0 and new_class = rename_C
      and cid = "''C''" and c = class_C and class_data = rename_C and dt = 738895
      and start_date = 738895 and end_date = 738896 and new_student = keep_in_C and ?c1.0 = class_C
      and sid = "''S1''" and s = student_S1 and student_data = keep_in_C and ?c2.0 = class_C
      and ?c3.0 = class_C and attendance_data = marks_C and ?c4.0 = class_C]
  have "?thesis"
    using rule [where u = teacher_T] rule [where u = admin_A] rule [where u = teacher_T2]
      cls new stu own blk who
    by simp
  then show ?thesis .
qed

subsection \<open>Existence before permission\<close>

text \<open>
  What the handlers share. The test for the target comes first: when the target does not
  exist (the class of class update, class delete, student create and bulk write; the
  student of student update and delete) the operation fails with NotFound for every
  actor, admin or not, and writes nothing. When the target exists, the class the handler
  takes the owner from exists as well, and the actor is a non-admin other than that
  class's teacher, the operation fails with Forbidden and writes nothing.
\<close>

lemma not_found_then_forbidden_when_owner_resolves:
  "(find_one (\<lambda>c. cls_id c = cid) (db_classes d) = None \<longrightarrow>
        is_NotFound (fst (update_class e d cid class_data u))
      \<and> snd (update_class e d cid class_data u) = d
      \<and> is_NotFound (fst (delete_class d cid u)) \<and> snd (delete_class d cid u) = d)
   \<and> (find_one (\<lambda>c. cls_id c = sc_class_id new_student) (db_classes d) = None \<longrightarrow>
        is_NotFound (fst (create_student e d new_student u))
      \<and> snd (create_student e d new_student u) = d)
   \<and> (find_one (\<lambda>c. cls_id c = ab_class_id attendance_data) (db_classes d) = None \<longrightarrow>
        is_NotFound (fst (mark_bulk_attendance e d attendance_data u))
      \<and> snd (mark_bulk_attendance e d attendance_data u) = d)
   \<and> (find_one (\<lambda>s. stu_id s = sid) (db_students d) = None \<longrightarrow>
        is_NotFound (fst (update_student e d sid student_data u))
      \<and> snd (update_student e d sid student_data u) = d
      \<and> is_NotFound (fst (delete_student d sid u)) \<and> snd (delete_student d sid u) = d)
   \<and> (ur_role u \<noteq> ''admin'' \<and> ur_id u \<noteq> teacher_id c \<longrightarrow>
        (find_one (\<lambda>c. cls_id c = cid) (db_classes d) = Some c \<longrightarrow>
            is_Forbidden (fst (update_class e d cid class_data u))
          \<and> snd (update_class e d cid class_data u) = d
          \<and> is_Forbidden (fst (delete_class d cid u)) \<and> snd (delete_class d cid u) = d)
      \<and> (find_one (\<lambda>c. cls_id c = sc_class_id new_student) (db_classes d) = Some c \<longrightarrow>
            is_Forbidden (fst (create_student e d new_student u))
          \<and> snd (create_student e d new_student u) = d)
      \<and> (find_one (\<lambda>c. cls_id c = ab_class_id attendance_data) (db_classes d) = Some c \<longrightarrow>
            is_Forbidden (fst (mark_bulk_attendance e d attendance_data u))
          \<and> snd (mark_bulk_attendance e d attendance_data u) = d)
      \<and> (find_one (\<lambda>s. stu_id s = sid) (db_students d) = Some s
          \<and> find_one (\<lambda>c. cls_id c = sc_class_id student_data) (db_classes d) = Some c \<longrightarrow>
            is_Forbidden (fst (update_student e d sid student_data u))
          \<and> snd (update_student e d sid student_data u) = d)
      \<and> (find_one (\<lambda>s. stu_id s = sid) (db_students d) = Some s
          \<and> find_one (\<lambda>c. cls_id c = class_id s) (db_classes d) = Some c \<longrightarrow>
            is_Forbidden (fst (delete_student d sid u))
          \<and> snd (delete_student d sid u) = d))"
proof -
  have missing: "is_NotFound (fst r) \<and> snd r = d" if "r = (Inl (HTTPException 404 detail), d)"
    for r :: "(error + 'r) \<times> db" and detail
    using that by (simp add: is_NotFound_404)
  have refused: "\<not> canMutate u (teacher_id c)"
    if "ur_role u \<noteq> ''admin'' \<and> ur_id u \<noteq> teacher_id c"
    using that by (simp add: canMutate_def)
  have a: "find_one (\<lambda>c. cls_id c = cid) (db_classes d) = None \<longrightarrow>
        is_NotFound (fst (update_class e d cid class_data u))
      \<and> snd (update_class e d cid class_data u) = d
      \<and> is_NotFound (fst (delete_class d cid u)) \<and> snd (delete_class d cid u) = d"
    using missing [OF update_class_not_found] missing [OF delete_class_not_found] by blast
  have b: "find_one (\<lambda>c. cls_id c = sc_class_id new_student) (db_classes d) = None \<longrightarrow>
        is_NotFound (fst (create_student e d new_student u))
      \<and> snd (create_student e d new_student u) = d"
    using missing [OF create_student_not_found] by blast
  have c: "find_one (\<lambda>c. cls_id c = ab_class_id attendance_data) (db_classes d) = None \<longrightarrow>
        is_NotFound (fst (mark_bulk_attendance e d attendance_data u))
      \<and> snd (mark_bulk_attendance e d attendance_data u) = d"
    using missing [OF mark_bulk_attendance_not_found] by blast
  have d: "find_one (\<lambda>s. stu_id s = sid) (db_students d) = None \<longrightarrow>
        is_NotFound (fst (update_student e d sid student_data u))
      \<and> snd (update_student e d sid student_data u) = d
      \<and> is_NotFound (fst (delete_student d sid u)) \<and> snd (delete_student d sid u) = d"
    using missing [OF update_student_not_found] missing [OF delete_student_not_found] by blast
  have f: "ur_role u \<noteq> ''admin'' \<and> ur_id u \<noteq> teacher_id c \<longrightarrow>
        (find_one (\<lambda>c. cls_id c = cid) (db_classes d) = Some c \<longrightarrow>
            is_Forbidden (fst (update_class e d cid class_data u))
          \<and> snd (update_class e d cid class_data u) = d
          \<and> is_Forbidden (fst (delete_class d cid u)) \<and> snd (delete_class d cid u) = d)
      \<and> (find_one (\<lambda>c. cls_id c = sc_class_id new_student) (db_classes d) = Some c \<longrightarrow>
            is_Forbidden (fst (create_student e d new_student u))
          \<and> snd (create_student e d new_student u) = d)
      \<and> (find_one (\<lambda>c. cls_id c = ab_class_id attendance_data) (db_classes d) = Some c \<longrightarrow>
            is_Forbidden (fst (mark_bulk_attendance e d attendance_data u))
          \<and> snd (mark_bulk_attendance e d attendance_data u) = d)
      \<and> (find_one (\<lambda>s. stu_id s = sid) (db_students d) = Some s
          \<and> find_one (\<lambda>c. cls_id c = sc_class_id student_data) (db_classes d) = Some c \<longrightarrow>
            is_Forbidden (fst (update_student e d sid student_data u))
          \<and> snd (update_student e d sid student_data u) = d)
      \<and> (find_one (\<lambda>s. stu_id s = sid) (db_students d) = Some s
          \<and> find_one (\<lambda>c. cls_id c = class_id s) (db_classes d) = Some c \<longrightarrow>
            is_Forbidden (fst (delete_student d sid u))
          \<and> snd (delete_student d sid u) = d)"
    using update_class_forbidden [of cid d c e class_data u] delete_class_forbidden [of cid d c u]
      create_student_forbidden [of new_student d c e u]
      mark_bulk_attendance_forbidden [of attendance_data d c e u]
      update_student_forbidden [of sid d s student_data c e u]
      delete_student_forbidden [of sid d s c u]
      forbidden_leaves_store(2) [of e d cid class_data u] forbidden_leaves_store(3) [of d cid u]
      forbidden_leaves_store(4) [of e d new_student u]
      forbidden_leaves_store(5) [of e d sid student_data u]
      forbidden_leaves_store(6) [of d sid u]
      forbidden_leaves_store(7) [of e d attendance_data u]
      refused
    by blast
  from a b c d f show ?thesis
    by blast
qed

text \<open>
  Claim C4 says that every mutation answers NotFound for a missing target and Forbidden
  for a non-admin who does not own an existing one, uniformly. Student create and the
  bulk write test the class document before they subscript it; student update and
  student delete do not. In the scenario the admin deletes class C, which leaves S1
  stored with the id of a class that no longer exists. T2, a non-admin who owns neither,
  then deletes S1, and updates S1 with a payload that names class C: both requests raise
  \<^verbatim>\<open>TypeError\<close> on the subscript of the missing class document, which is neither
  NotFound nor Forbidden.
\<close>

theorem orphaned_student_TypeError:
  "delete_class db0 ''C'' admin_A = (Inr ''Class deleted successfully'', db_orphaned)
   \<and> find_one (\<lambda>s. stu_id s = ''S1'') (db_students db_orphaned) = Some student_S1
   \<and> ur_role teacher_T2 \<noteq> ''admin''
   \<and> delete_student db_orphaned ''S1'' teacher_T2 = (Inl TypeError, db_orphaned)
   \<and> \<not> is_NotFound (fst (delete_student db_orphaned ''S1'' teacher_T2))
   \<and> \<not> is_Forbidden (fst (delete_student db_orphaned ''S1'' teacher_T2))
   \<and> update_student env0 db_orphaned ''S1'' keep_in_C teacher_T2 = (Inl TypeError, db_orphaned)
   \<and> \<not> is_NotFound (fst (update_student env0 db_orphaned ''S1'' keep_in_C teacher_T2))
   \<and> \<not> is_Forbidden (fst (update_student env0 db_orphaned ''S1'' keep_in_C teacher_T2))"
  by (simp add: delete_class_def delete_student_def update_student_def Let_def
      is_NotFound_def is_Forbidden_def status_code_def scenario_defs)

subsection \<open>Registration\<close>

lemma register_user_existing:
  "\<exists>x\<in>set (db_users d). email x = uc_email user_data \<Longrightarrow>
   register_user e d user_data = (Inl (HTTPException 400 ''Email already registered''), d)"
  by (auto simp: register_user_def find_one_None_iff split: option.splits)

lemma register_user_fresh:
  "\<not> (\<exists>x\<in>set (db_users d). email x = uc_email user_data) \<Longrightarrow>
   register_user e d user_data =
     (Inr \<lparr>rr_message = ''User registered successfully'',
           rr_token = create_jwt_token e (uuid4 e 0),
           rr_user = \<lparr>ur_id = uuid4 e 0, ur_username = uc_username user_data,
                      ur_email = uc_email user_data, ur_role = uc_role user_data,
                      ur_created_at = utcnow e\<rparr>\<rparr>,
      d\<lparr>db_users := db_users d @
          [\<lparr>user_id = uuid4 e 0, username = uc_username user_data,
            email = uc_email user_data,
            password_hash = hash_password e (uc_password user_data),
            role = uc_role user_data, user_created_at = utcnow e\<rparr>]\<rparr>)"
proof -
  assume "\<not> (\<exists>x\<in>set (db_users d). email x = uc_email user_data)"
  then have "find_one (\<lambda>u. email u = uc_email user_data) (db_users d) = None"
    by (simp add: find_one_None_iff)
  then show ?thesis
    by (simp add: register_user_def Let_def insert_one_def UserResponse_of_def)
qed

lemma register_user_twice:
  assumes "uc_email a = uc_email b"
    and "\<not> (\<exists>x\<in>set (db_users d). email x = uc_email a)"
  shows "\<exists>r d1. register_user e1 d a = (Inr r, d1)
           \<and> register_user e2 d1 b = (Inl (HTTPException 400 ''Email already registered''), d1)"
proof -
  obtain r d1 where first: "register_user e1 d a = (Inr r, d1)"
    and users: "db_users d1 = db_users d @
          [\<lparr>user_id = uuid4 e1 0, username = uc_username a, email = uc_email a,
            password_hash = hash_password e1 (uc_password a),
            role = uc_role a, user_created_at = utcnow e1\<rparr>]"
    using register_user_fresh [OF assms(2), of e1] by simp
  have "\<exists>x\<in>set (db_users d1). email x = uc_email b"
    using users assms(1) by simp
  then have "register_user e2 d1 b = (Inl (HTTPException 400 ''Email already registered''), d1)"
    by (rule register_user_existing)
  with first show ?thesis
    by blast
qed

text \<open>
  Claim C7. Registration fails with the 400 error "Email already registered", leaving
  the user store unchanged, if and only if a user with that email already exists;
  otherwise it appends the new user and returns a token and the created user. Hence two
  registrations with one email, the email being new to the store, yield one success and
  one such error, in either order.
\<close>

theorem register_user_duplicate_email:
  "((fst (register_user e d user_data) = Inl (HTTPException 400 ''Email already registered''))
      = (\<exists>x\<in>set (db_users d). email x = uc_email user_data))
   \<and> ((\<exists>x\<in>set (db_users d). email x = uc_email user_data) \<longrightarrow>
        register_user e d user_data = (Inl (HTTPException 400 ''Email already registered''), d))
   \<and> (\<not> (\<exists>x\<in>set (db_users d). email x = uc_email user_data) \<longrightarrow>
        register_user e d user_data =
          (Inr \<lparr>rr_message = ''User registered successfully'',
                rr_token = create_jwt_token e (uuid4 e 0),
                rr_user = \<lparr>ur_id = uuid4 e 0, ur_username = uc_username user_data,
                           ur_email = uc_email user_data, ur_role = uc_role user_data,
                           ur_created_at = utcnow e\<rparr>\<rparr>,
           d\<lparr>db_users := db_users d @
               [\<lparr>user_id = uuid4 e 0, username = uc_username user_data,
                 email = uc_email user_data,
                 password_hash = hash_password e (uc_password user_data),
                 role = uc_role user_data, user_created_at = utcnow e\<rparr>]\<rparr>))
   \<and> (uc_email a = uc_email b \<and> \<not> (\<exists>x\<in>set (db_users d). email x = uc_email a) \<longrightarrow>
        (\<exists>r d1. register_user e1 d a = (Inr r, d1)
           \<and> register_user e2 d1 b = (Inl (HTTPException 400 ''Email already registered''), d1))
      \<and> (\<exists>r d1. register_user e1 d b = (Inr r, d1)
           \<and> register_user e2 d1 a = (Inl (HTTPException 400 ''Email already registered''), d1)))"
proof -
  have iff: "(fst (register_user e d user_data) = Inl (HTTPException 400 ''Email already registered''))
      = (\<exists>x\<in>set (db_users d). email x = uc_email user_data)"
  proof (cases "\<exists>x\<in>set (db_users d). email x = uc_email user_data")
    case True
    then show ?thesis by (simp add: register_user_existing)
  next
    case False
    then show ?thesis by (simp add: register_user_fresh)
  qed
  have twice: "(\<exists>r d1. register_user e1 d a = (Inr r, d1)
           \<and> register_user e2 d1 b = (Inl (HTTPException 400 ''Email already registered''), d1))
      \<and> (\<exists>r d1. register_user e1 d b = (Inr r, d1)
           \<and> register_user e2 d1 a = (Inl (HTTPException 400 ''Email already registered''), d1))"
    if both: "uc_email a = uc_email b \<and> \<not> (\<exists>x\<in>set (db_users d). email x = uc_email a)"
  proof -
    from both have eq: "uc_email a = uc_email b"
      and fa: "\<not> (\<exists>x\<in>set (db_users d). email x = uc_email a)"
      by blast+
    from eq fa have fb: "\<not> (\<exists>x\<in>set (db_users d). email x = uc_email b)"
      by simp
    show ?thesis
      using register_user_twice [OF eq fa, of e1 e2]
        register_user_twice [OF eq [symmetric] fb, of e1 e2]
      by blast
  qed
  from iff twice register_user_existing [of d user_data e] register_user_fresh [of d user_data e]
  show ?thesis
    by blast
qed

text \<open>
  In the scenario the store has no user; two sign-ups with the email t@school follow one
  another in both orders.
\<close>

theorem register_user_duplicate_email_witness:
  "uc_email signup_1 = uc_email signup_2 \<and> signup_1 \<noteq> signup_2 \<and> db_users db0 = []
   \<and> (\<exists>r d1. register_user env0 db0 signup_1 = (Inr r, d1)
         \<and> register_user env0 d1 signup_2
             = (Inl (HTTPException 400 ''Email already registered''), d1))
   \<and> (\<exists>r d1. register_user env0 db0 signup_2 = (Inr r, d1)
         \<and> register_user env0 d1 signup_1
             = (Inl (HTTPException 400 ''Email already registered''), d1))"
proof -
  have same: "uc_email signup_1 = uc_email signup_2" and differ: "signup_1 \<noteq> signup_2"
    and empty: "db_users db0 = []"
    by (simp_all add: scenario_defs)
  have fresh: "\<not> (\<exists>x\<in>set (db_users db0). email x = uc_email signup_1)"
    by (simp add: empty)
  from register_user_duplicate_email [where a = signup_1 and b = signup_2 and d = db0
      and ?e1.0 = env0 and ?e2.0 = env0] same fresh
  have "(\<exists>r d1. register_user env0 db0 signup_1 = (Inr r, d1)
         \<and> register_user env0 d1 signup_2
             = (Inl (HTTPException 400 ''Email already registered''), d1))
   \<and> (\<exists>r d1. register_user env0 db0 signup_2 = (Inr r, d1)
         \<and> register_user env0 d1 signup_1
             = (Inl (HTTPException 400 ''Email already registered''), d1))"
    by blast
  with same differ empty show ?thesis
    by blast
qed

subsection \<open>The attendance endpoints past the policy check\<close>

text \<open>
  Once the class is found and the actor is let through, each of the three attendance
  handlers builds a filter that holds a date, and the driver raises on it before the
  database is reached: nothing is written and nothing is returned.
\<close>

lemma bson_encode_all_date:
  "PyDate dt \<in> set vs \<Longrightarrow> bson_encode_all vs = Inl InvalidDocument"
proof (induction vs)
  case Nil
  then show ?case by simp
next
  case (Cons v vs)
  then show ?case
    by (cases v) (auto split: sum.splits)
qed

lemma mark_bulk_attendance_permitted:
  assumes "find_one (\<lambda>c. cls_id c = ab_class_id attendance_data) (db_classes d) = Some c"
    and "canMutate u (teacher_id c)"
  shows "mark_bulk_attendance e d attendance_data u = (Inl InvalidDocument, d)"
  using assms by (auto simp: mark_bulk_attendance_def canMutate_def)

lemma get_attendance_permitted:
  assumes "find_one (\<lambda>c. cls_id c = cid) (db_classes d) = Some c"
    and "canMutate u (teacher_id c)"
  shows "get_attendance d cid dt u = Inl InvalidDocument"
  using assms by (auto simp: get_attendance_def canMutate_def Let_def)

lemma download_attendance_csv_permitted:
  assumes "find_one (\<lambda>c. cls_id c = cid) (db_classes d) = Some c"
    and "canMutate u (teacher_id c)"
  shows "download_attendance_csv e d cid start_date end_date u = Inl InvalidDocument"
  using assms by (auto simp: download_attendance_csv_def canMutate_def Let_def)

text \<open>
  Claim C2 says that two bulk writes with the same class id, date and records leave
  exactly as many rows in the partition as there are records. In the scenario T, the
  teacher of class C, marks S1 present and S2 absent on 2024-01-10, twice. Each call
  raises \<^verbatim>\<open>InvalidDocument\<close> at \<^verbatim>\<open>delete_many\<close> and leaves the store as it was:
  the partition holds no row after the two calls, where the claim counts two.
\<close>

theorem mark_bulk_attendance_raises:
  "mark_bulk_attendance env0 db0 marks_C teacher_T = (Inl InvalidDocument, db0)
   \<and> mark_bulk_attendance env0 (snd (mark_bulk_attendance env0 db0 marks_C teacher_T))
        marks_C teacher_T = (Inl InvalidDocument, db0)
   \<and> length (attendance_records marks_C) = 2
   \<and> partition_rows (ab_class_id marks_C) (ab_date marks_C) db0 = []"
proof -
  have cls: "find_one (\<lambda>c. cls_id c = ab_class_id marks_C) (db_classes db0) = Some class_C"
    by (simp add: scenario_defs)
  have ok: "canMutate teacher_T (teacher_id class_C)"
    by (simp add: canMutate_def scenario_defs)
  have once: "mark_bulk_attendance env0 db0 marks_C teacher_T = (Inl InvalidDocument, db0)"
    by (rule mark_bulk_attendance_permitted [OF cls ok])
  have input: "length (attendance_records marks_C) = 2"
    "partition_rows (ab_class_id marks_C) (ab_date marks_C) db0 = []"
    by (simp_all add: partition_rows_def scenario_defs)
  from once input show ?thesis
    by simp
qed

text \<open>
  Claim C3 says that, whenever the policy check passes, the read returns one entry per
  student of the class, each with the recorded status or the sentinel. In the scenario T
  reads the attendance of class C, which has the two students S1 and S2, for 2024-01-10:
  the students are fetched, the query for the attendance rows raises
  \<^verbatim>\<open>InvalidDocument\<close>, and no list is returned.
\<close>

theorem get_attendance_raises:
  "get_attendance db0 ''C'' 738895 teacher_T = Inl InvalidDocument
   \<and> filter (\<lambda>s. class_id s = ''C'') (db_students db0) = [student_S1, student_S2]"
proof -
  have cls: "find_one (\<lambda>c. cls_id c = ''C'') (db_classes db0) = Some class_C"
    by (simp add: scenario_defs)
  have ok: "canMutate teacher_T (teacher_id class_C)"
    by (simp add: canMutate_def scenario_defs)
  have studs: "filter (\<lambda>s. class_id s = ''C'') (db_students db0) = [student_S1, student_S2]"
    by (simp add: scenario_defs)
  from get_attendance_permitted [OF cls ok, of 738895] studs show ?thesis
    by simp
qed

subsection \<open>Listing classes and students\<close>

lemma length_throng: "length (throng n) = n"
  by (simp add: throng_def)

text \<open>
  Claim C8, as stated, fails: the listing is cut at 1000 documents. With 1001 classes in
  the store the admin receives 1000 of them, not all.
\<close>

theorem get_classes_capped:
  "ur_role admin_A = ''admin''
   \<and> length (get_classes db_throng admin_A) = 1000 \<and> length (db_classes db_throng) = 1001"
  by (simp add: get_classes_def to_list_def db_throng_def length_throng admin_A_def)

text \<open>
  Claim C8, amended. Read-path filtering is asymmetric. Listing classes returns the first
  1000 of all classes when the actor's role is admin, and the first 1000 of the classes
  whose \<^verbatim>\<open>teacher_id\<close> is the actor's id when the role is teacher. Listing students
  applies no role-based filtering at all: the result does not depend on the actor, and
  every authenticated actor receives the first 1000 of all students when no
  \<^verbatim>\<open>class_id\<close> is given and the first 1000 of the students of that class when a
  non-empty \<^verbatim>\<open>class_id\<close> is given.
\<close>

theorem listing_filters:
  "(ur_role u = ''admin'' \<longrightarrow> get_classes d u = take 1000 (db_classes d))
   \<and> (ur_role u = ''teacher'' \<longrightarrow>
        get_classes d u = take 1000 (filter (\<lambda>c. teacher_id c = ur_id u) (db_classes d)))
   \<and> get_students d cid u = get_students d cid u'
   \<and> get_students d None u = take 1000 (db_students d)
   \<and> get_students d (Some []) u = take 1000 (db_students d)
   \<and> (c \<noteq> [] \<longrightarrow>
        get_students d (Some c) u = take 1000 (filter (\<lambda>s. class_id s = c) (db_students d)))"
  by (simp add: get_classes_def get_students_def to_list_def)

text \<open>
  In the scenario the admin lists both classes, T2 lists only class D, and T2, who does
  not teach class C, lists the students of class C.
\<close>

theorem listing_filters_witness:
  "get_classes db0 admin_A = [class_C, class_D]
   \<and> get_classes db0 teacher_T2 = [class_D]
   \<and> teacher_id class_C \<noteq> ur_id teacher_T2
   \<and> get_students db0 (Some ''C'') teacher_T2 = [student_S1, student_S2]
   \<and> get_students db0 (Some ''C'') teacher_T2 = get_students db0 (Some ''C'') admin_A"
proof -
  have roles: "ur_role admin_A = ''admin''" "ur_role teacher_T2 = ''teacher''"
    "teacher_id class_C \<noteq> ur_id teacher_T2" "''C'' \<noteq> []"
    by (simp_all add: scenario_defs)
  have lists: "take 1000 (db_classes db0) = [class_C, class_D]"
    "take 1000 (filter (\<lambda>c. teacher_id c = ur_id teacher_T2) (db_classes db0)) = [class_D]"
    "take 1000 (filter (\<lambda>s. class_id s = ''C'') (db_students db0)) = [student_S1, student_S2]"
    by (simp_all add: scenario_defs)
  from listing_filters [of admin_A db0 "Some ''C''" teacher_T2 "''C''"]
    listing_filters [of teacher_T2 db0 "Some ''C''" admin_A "''C''"] roles lists
  show ?thesis
    by simp
qed

subsection \<open>The CSV report\<close>

text \<open>
  Claim C6 says that every report whose policy check passes has a header of 2 columns
  plus one per day of the inclusive range. In the scenario T asks for the report of
  class C from 2024-01-10 to 2024-01-11, whose header would have 4 columns: the query
  for the attendance rows of the range raises \<^verbatim>\<open>InvalidDocument\<close> before the header
  loop is reached, and no report is produced.
\<close>

theorem download_attendance_csv_raises:
  "download_attendance_csv env0 db0 ''C'' 738895 738896 teacher_T = Inl InvalidDocument"
proof -
  have cls: "find_one (\<lambda>c. cls_id c = ''C'') (db_classes db0) = Some class_C"
    by (simp add: scenario_defs)
  have ok: "canMutate teacher_T (teacher_id class_C)"
    by (simp add: canMutate_def scenario_defs)
  show ?thesis
    by (rule download_attendance_csv_permitted [OF cls ok])
qed

end
